theory Spec2Isabelle
  imports Complex_Main "HOL-Library.Product_Lexorder" "HOL-Library.AList"
begin

section \<open>Timestamps\<close>

text \<open>
  A timestamp is Python's \<^verbatim>\<open>datetime\<close>: its calendar and clock fields. All timestamps of
  one run come from the same backend in the same zone, where Python orders them by the
  tuple of their fields; \<open>dt_key\<close> is that tuple.
\<close>

record datetime =
  year :: nat
  month :: nat
  day :: nat
  hour :: nat
  minute :: nat
  second :: nat
  microsecond :: nat

definition dt_key :: "datetime \<Rightarrow> nat \<times> nat \<times> nat \<times> nat \<times> nat \<times> nat \<times> nat" where
  "dt_key t = (year t, month t, day t, hour t, minute t, second t, microsecond t)"

text \<open>\<^verbatim>\<open>dt.replace(second=0, microsecond=0)\<close>\<close>

definition trunc_minute :: "datetime \<Rightarrow> datetime" where
  "trunc_minute t = t\<lparr>second := 0, microsecond := 0\<rparr>"

section \<open>TimeSeries (metrics.py)\<close>

text \<open>
  A stored value is \<^verbatim>\<open>Union[float, int, bool]\<close>. A float is modelled by the rational number
  it denotes (finite floats only).
\<close>

datatype pyval = VInt int | VFloat rat | VBool bool

record TimeSeries =
  "values" :: "(datetime \<times> pyval) list"
  unit :: "string option"

definition add :: "TimeSeries \<Rightarrow> datetime \<Rightarrow> pyval \<Rightarrow> TimeSeries" where
  "add s ts v = s\<lparr>values := values s @ [(ts, v)]\<rparr>"

definition timestamps :: "TimeSeries \<Rightarrow> datetime list" where
  "timestamps s = map fst (values s)"

definition data :: "TimeSeries \<Rightarrow> pyval list" where
  "data s = map snd (values s)"

text \<open>\<^verbatim>\<open>self.values.sort(key=lambda x: x[0])\<close>: a stable sort by timestamp.\<close>

definition sort_values :: "(datetime \<times> pyval) list \<Rightarrow> (datetime \<times> pyval) list" where
  "sort_values xs = sort_key (\<lambda>tv. dt_key (fst tv)) xs"

text \<open>
  \<^verbatim>\<open>get_by_ts\<close>: the first stored pair whose timestamp equals \<open>ts\<close>, else the integer 0.
\<close>

fun get_by_ts_loop :: "(datetime \<times> pyval) list \<Rightarrow> datetime \<Rightarrow> pyval" where
  "get_by_ts_loop [] ts = VInt 0"
| "get_by_ts_loop ((t, v) # rest) ts = (if t = ts then v else get_by_ts_loop rest ts)"

definition get_by_ts :: "TimeSeries \<Rightarrow> datetime \<Rightarrow> pyval" where
  "get_by_ts s ts = get_by_ts_loop (values s) ts"

section \<open>Raw samples of the monitoring backend\<close>

text \<open>
  A point carries its interval and its value. The code reads a point's time as
  \<^verbatim>\<open>p.interval.end_time or p.interval.start_time\<close>: the end time when it is set.
\<close>

record 'v point =
  end_time :: "datetime option"
  start_time :: datetime
  pvalue :: 'v

definition point_time :: "'v point \<Rightarrow> datetime" where
  "point_time p = (case end_time p of Some t \<Rightarrow> t | None \<Rightarrow> start_time p)"

record 'v raw_series =
  metric_labels :: "(string \<times> string) list"
  resource_labels :: "(string \<times> string) list"
  points :: "'v point list"

text \<open>\<^verbatim>\<open>sorted(ts.points, key=lambda p: (p.interval.end_time or p.interval.start_time))\<close>\<close>

definition sorted_points :: "'v point list \<Rightarrow> 'v point list" where
  "sorted_points ps = sort_key (\<lambda>p. dt_key (point_time p)) ps"

text \<open>\<^verbatim>\<open>x or ""\<close> on an optional label.\<close>

definition or_empty :: "string option \<Rightarrow> string" where
  "or_empty x = (case x of None \<Rightarrow> '''' | Some s \<Rightarrow> if s = '''' then '''' else s)"

section \<open>Per-query lock time (g\_monitoring\_collector.py)\<close>


definition lock_time_unit :: string where
  "lock_time_unit = ''us = microseconds (1,000,000 us = 1 second)''"





section \<open>Per-query IO time (g\_monitoring\_collector.py)\<close>

record PerqueryIOTimeMetric =
  io_user :: "string option"
  io_querystring :: "string option"
  io_type :: "string option"
  io_query_hash :: "string option"
  io_database :: "string option"
  perquery_IO_time :: TimeSeries

text \<open>The loop over the sorted points of one raw series: every point adds
  \<^verbatim>\<open>(dt, p.value.int64_value)\<close> to the metric's series.\<close>

fun IO_time_loop :: "int point list \<Rightarrow> TimeSeries \<Rightarrow> TimeSeries" where
  "IO_time_loop [] s = s"
| "IO_time_loop (p # ps) s =
     (let dt = trunc_minute (point_time p)
      in IO_time_loop ps (add s dt (VInt (pvalue p))))"

type_synonym key4 = "string \<times> string \<times> string \<times> string"

fun IO_time_group ::
  "int raw_series list \<Rightarrow> (key4 \<times> PerqueryIOTimeMetric) list
     \<Rightarrow> (key4 \<times> PerqueryIOTimeMetric) list" where
  "IO_time_group [] grouped = grouped"
| "IO_time_group (ts # rest) grouped =
     (let mlabels = map_of (metric_labels ts);
          rlabels = map_of (resource_labels ts);
          querystring = mlabels ''querystring'';
          query_hash = mlabels ''query_hash'';
          io_type = mlabels ''io_type'';
          user = mlabels ''user'';
          database = rlabels ''database'';
          key = (or_empty query_hash, or_empty io_type, or_empty user, or_empty database);
          metric_obj = (case map_of grouped key of
                          Some m \<Rightarrow> m
                        | None \<Rightarrow> \<lparr> io_user = user, io_querystring = querystring,
                                    io_type = io_type, io_query_hash = query_hash,
                                    io_database = database,
                                    perquery_IO_time =
                                      \<lparr> values = [], unit = Some lock_time_unit \<rparr> \<rparr>);
          metric_obj' = metric_obj\<lparr> perquery_IO_time :=
                          IO_time_loop (sorted_points (points ts))
                            (perquery_IO_time metric_obj) \<rparr>
      in IO_time_group rest (AList.update key metric_obj' grouped))"

definition load_perquery_IO_time :: "int raw_series list \<Rightarrow> PerqueryIOTimeMetric list" where
  "load_perquery_IO_time series_list =
     map (\<lambda>obj. obj\<lparr> perquery_IO_time :=
                    (perquery_IO_time obj)\<lparr> values := sort_values (values (perquery_IO_time obj)) \<rparr> \<rparr>)
         (map snd (IO_time_group series_list []))"

section \<open>Snapshot assembly (generate\_cloudsql\_metrics)\<close>

text \<open>The keys of \<^verbatim>\<open>fetch_map\<close>, in the order the dictionary literal lists them.\<close>

definition fetch_attrs :: "string list" where
  "fetch_attrs =
     [''perquery_lock_time_metrics'', ''perquery_latency_metrics'',
      ''perquery_IO_time_metrics'', ''wal_flushed_bytes_metrics'',
      ''wal_inserted_bytes_metrics'', ''psql_num_backends_by_state_metrics'',
      ''cpu_usage_time'', ''cpu_utilization'', ''disk_quota'', ''disk_utilization'',
      ''disk_read_bytes'', ''disk_bytes_used_by_type'', ''memory_quota'',
      ''memory_components'']"

text \<open>
  Every entry of \<^verbatim>\<open>fetch_map\<close> is submitted to the pool; \<open>run attr\<close> is what the task of
  \<open>attr\<close> does: it returns a value (\<open>Inr\<close>) or raises (\<open>Inl\<close>). \<^verbatim>\<open>as_completed\<close> yields the
  futures in the order they finish, which is any ordering of the submitted tasks:
  \<open>completion_order\<close>. The loop stores \<^verbatim>\<open>fut.result()\<close> under the future's attribute in the dictionary
  \<^verbatim>\<open>data\<close> (here \<open>data_dict\<close>);
  \<^verbatim>\<open>fut.result()\<close> re-raises the exception of a failed task, which leaves the loop and the
  function. \<^verbatim>\<open>CloudSQLMetrics(**data)\<close> is modelled by its keyword dictionary.
\<close>

fun collect_results ::
  "(string \<times> ('e + 'r)) list \<Rightarrow> (string \<times> 'r) list \<Rightarrow> 'e + (string \<times> 'r) list" where
  "collect_results [] data_dict = Inr data_dict"
| "collect_results ((attr, res) # futs) data_dict =
     (case res of
        Inl e \<Rightarrow> Inl e
      | Inr v \<Rightarrow> collect_results futs (AList.update attr v data_dict))"

definition generate_cloudsql_metrics ::
  "(string \<Rightarrow> 'e + 'r) \<Rightarrow> string list \<Rightarrow> 'e + (string \<times> 'r) list" where
  "generate_cloudsql_metrics run completion_order =
     collect_results (map (\<lambda>attr. (attr, run attr)) completion_order) []"

section \<open>Specification-side definitions and examples\<close>

text \<open>
  The delta sequence as the specification words it: the first delta is the raw value,
  every later one is \<open>max(0, raw - previous raw)\<close>.
\<close>

definition spec_delta :: "int list \<Rightarrow> nat \<Rightarrow> int" where
  "spec_delta raw i = (if i = 0 then raw ! 0 else max 0 (raw ! i - raw ! (i - 1)))"



text \<open>Example inputs: times of day on one date, a lock-time series with a counter reset,
  and a series of booleans.\<close>

definition mk_dt :: "nat \<Rightarrow> nat \<Rightarrow> nat \<Rightarrow> nat \<Rightarrow> datetime" where
  "mk_dt h m s us =
     \<lparr> year = 2024, month = 1, day = 15, hour = h, minute = m, second = s, microsecond = us \<rparr>"

definition mk_point :: "datetime \<Rightarrow> 'v \<Rightarrow> 'v point" where
  "mk_point t v = \<lparr> end_time = Some t, start_time = t, pvalue = v \<rparr>"

definition example_labels :: "(string \<times> string) list" where
  "example_labels = [(''query_hash'', ''42''), (''user'', ''app'')]"

definition example_counter_series :: "int raw_series" where
  "example_counter_series =
     \<lparr> metric_labels = example_labels,
       resource_labels = [(''database'', ''main'')],
       points = [mk_point (mk_dt 12 0 5 17) 0, mk_point (mk_dt 12 1 5 903) 100,
                 mk_point (mk_dt 12 2 7 1) 250, mk_point (mk_dt 12 3 9 44) 200] \<rparr>"

definition example_bool_series :: TimeSeries where
  "example_bool_series =
     \<lparr> values = [(mk_dt 12 0 0 0, VBool True), (mk_dt 12 1 0 0, VBool False)],
       unit = None \<rparr>"

text \<open>A run in which exactly the task of \<open>cpu_usage_time\<close> raises.\<close>

definition example_run :: "string \<Rightarrow> string + nat" where
  "example_run attr = (if attr = ''cpu_usage_time'' then Inl ''quota exceeded'' else Inr 7)"

lemma get_by_ts_loop_absent: "t \<notin> fst ` set xs \<Longrightarrow> get_by_ts_loop xs t = VInt 0"
  by (induction xs t rule: get_by_ts_loop.induct) auto

text \<open>
  Claim C8. For every series and every timestamp that is not among the stored timestamps,
  \<open>get_by_ts\<close> returns the integer 0, whatever the type of the stored values.
\<close>

theorem get_by_ts_absent: "t \<notin> set (timestamps s) \<Longrightarrow> get_by_ts s t = VInt 0"
  by (simp add: get_by_ts_def timestamps_def get_by_ts_loop_absent)

theorem get_by_ts_absent_witness:
  "mk_dt 12 7 0 0 \<notin> set (timestamps example_bool_series) \<and>
   get_by_ts example_bool_series (mk_dt 12 7 0 0) = VInt 0"
proof -
  have h: "mk_dt 12 7 0 0 \<notin> set (timestamps example_bool_series)"
    by (simp add: timestamps_def example_bool_series_def mk_dt_def)
  show ?thesis using h get_by_ts_absent [OF h] by simp
qed

section \<open>Lock-time delta decoding\<close>
















section \<open>IO-time loading\<close>

text \<open>
  Claim C4 (the code at the failing input). For the time-ordered cumulative readings
  0, 100, 250, 200 the IO-time loader stores the raw readings themselves, not the deltas
  0, 100, 150, 0 of the specification.
\<close>

theorem IO_time_stores_raw_readings:
  "map (\<lambda>m. data (perquery_IO_time m)) (load_perquery_IO_time [example_counter_series]) =
     [[VInt 0, VInt 100, VInt 250, VInt 200]] \<and>
   map (\<lambda>m. data (perquery_IO_time m)) (load_perquery_IO_time [example_counter_series]) \<noteq>
     [map (\<lambda>i. VInt (spec_delta [0, 100, 250, 200] i)) [0, 1, 2, 3]]"
  by (simp add: load_perquery_IO_time_def example_counter_series_def example_labels_def
        mk_point_def mk_dt_def Let_def sorted_points_def sort_values_def point_time_def
        dt_key_def trunc_minute_def add_def data_def or_empty_def spec_delta_def)

section \<open>Snapshot assembly\<close>

lemma collect_results_error:
  "(a, Inl e) \<in> set futs \<Longrightarrow>
   \<exists>b e'. (b, Inl e') \<in> set futs \<and> collect_results futs d = Inl e'"
proof (induction futs arbitrary: d)
  case Nil then show ?case by simp
next
  case (Cons f futs)
  obtain attr res where f: "f = (attr, res)" by (cases f)
  show ?case
  proof (cases res)
    case (Inl e0)
    with f show ?thesis by auto
  next
    case (Inr v)
    with Cons.prems f have "(a, Inl e) \<in> set futs" by auto
    from Cons.IH[OF this, of "AList.update attr v d"] Inr f show ?thesis by auto
  qed
qed

text \<open>
  Claim C3. Whatever the order in which the tasks complete, if a registered task raises,
  snapshot assembly returns no snapshot: it propagates the error of a task that raised,
  and when only one task raises, that task's error.
\<close>

theorem generate_fail_fast:
  assumes "set completion_order = set fetch_attrs"
    and "a \<in> set fetch_attrs" and "run a = Inl e"
  shows "(\<exists>b \<in> set fetch_attrs. \<exists>e'. run b = Inl e' \<and>
            generate_cloudsql_metrics run completion_order = Inl e') \<and>
         (\<forall>snapshot. generate_cloudsql_metrics run completion_order \<noteq> Inr snapshot) \<and>
         ((\<forall>b \<in> set fetch_attrs. b \<noteq> a \<longrightarrow> \<not> isl (run b)) \<longrightarrow>
            generate_cloudsql_metrics run completion_order = Inl e)"
proof -
  let ?futs = "map (\<lambda>attr. (attr, run attr)) completion_order"
  from assms have "(a, Inl e) \<in> set ?futs" by force
  from collect_results_error[OF this, of "[]"]
  obtain b e' where b: "(b, Inl e') \<in> set ?futs"
    and r: "generate_cloudsql_metrics run completion_order = Inl e'"
    by (auto simp: generate_cloudsql_metrics_def)
  from b assms(1) have bin: "b \<in> set fetch_attrs" and rb: "run b = Inl e'" by auto
  have one: "(\<forall>c \<in> set fetch_attrs. c \<noteq> a \<longrightarrow> \<not> isl (run c)) \<longrightarrow>
            generate_cloudsql_metrics run completion_order = Inl e"
  proof
    assume "\<forall>c \<in> set fetch_attrs. c \<noteq> a \<longrightarrow> \<not> isl (run c)"
    with bin rb have "b = a" by (metis sum.disc(1))
    with rb assms(3) r show "generate_cloudsql_metrics run completion_order = Inl e" by simp
  qed
  from bin rb r one show ?thesis by auto
qed

theorem generate_fail_fast_witness:
  "set (rev fetch_attrs) = set fetch_attrs \<and> ''cpu_usage_time'' \<in> set fetch_attrs \<and>
   example_run ''cpu_usage_time'' = Inl ''quota exceeded'' \<and>
   generate_cloudsql_metrics example_run (rev fetch_attrs) = Inl ''quota exceeded''"
proof -
  have h1: "set (rev fetch_attrs) = set fetch_attrs" by simp
  have h2: "''cpu_usage_time'' \<in> set fetch_attrs" by (simp add: fetch_attrs_def)
  have h3: "example_run ''cpu_usage_time'' = Inl ''quota exceeded''" by (simp add: example_run_def)
  have h4: "\<forall>b \<in> set fetch_attrs. b \<noteq> ''cpu_usage_time'' \<longrightarrow> \<not> isl (example_run b)"
    by (simp add: example_run_def)
  note T = generate_fail_fast [where run = example_run and a = "''cpu_usage_time''"
      and completion_order = "rev fetch_attrs" and e = "''quota exceeded''", OF h1 h2 h3]
  show ?thesis
    using h1 h2 h3 T [THEN conjunct2, THEN conjunct2, THEN mp, OF h4]
    by (intro conjI) assumption+
qed

end

